theory Spec2Isabelle
  imports Complex_Main
begin

section \<open>Python built-ins used by the decoder and the output handlers\<close>

text \<open>
  Symbols are Python ints. Scores are Python floats; the handlers only add them
  (\<^verbatim>\<open>sum\<close>), negate them and hand them to a formatting operator, so the score type is
  left polymorphic with exactly the operations the code applies, and the float
  conversions (\<^verbatim>\<open>%f\<close>, \<^verbatim>\<open>str\<close>) are parameters of the model.
\<close>

type_synonym symbol = int

datatype error = NameError | IndexError | AttributeError | ValueError

text \<open>\<^verbatim>\<open>str(n)\<close> and \<^verbatim>\<open>"%d" % n\<close> for an int: its decimal digits, with a sign.\<close>

definition digit_char :: "nat \<Rightarrow> char" where
  "digit_char d = ''0123456789'' ! d"

function str_nat :: "nat \<Rightarrow> string" where
  "str_nat n = (if n < 10 then [digit_char n] else str_nat (n div 10) @ [digit_char (n mod 10)])"
  by pat_completeness auto
termination
  by (relation "measure id") auto

declare str_nat.simps [simp del]

definition str_int :: "int \<Rightarrow> string" where
  "str_int i = (if i < 0 then CHR ''-'' # str_nat (nat (- i)) else str_nat (nat i))"

text \<open>\<^verbatim>\<open>sep.join(xs)\<close>.\<close>

fun join :: "string \<Rightarrow> string list \<Rightarrow> string" where
  "join sep [] = []"
| "join sep [x] = x"
| "join sep (x # y # ys) = x @ sep @ join sep (y # ys)"

text \<open>\<^verbatim>\<open>s.replace("_", "0")\<close>: both strings are one character long.\<close>

definition replace_underscore :: "string \<Rightarrow> string" where
  "replace_underscore s = map (\<lambda>c. if c = CHR ''_'' then CHR ''0'' else c) s"

text \<open>\<^verbatim>\<open>sum(xs)\<close>: starts from the int 0 and adds the elements from the left.\<close>

definition py_sum :: "'s::{zero,plus} list \<Rightarrow> 's" where
  "py_sum xs = foldl (+) 0 xs"

definition newline :: string where
  "newline = [CHR 0x0A]"


section \<open>output.py: FSTOutputHandler.write_weight\<close>

text \<open>
  \<^verbatim>\<open>
  els = ['0']
  for (idx,score) in enumerate(score_breakdown):
      els.append(str(idx+1))
      els.append(str(-score[0]))
  return ','.join(els)
  \<close>
  A step's score breakdown is a list of (score, weight) tuples, one per predictor.
  \<open>str_f\<close> is Python's \<^verbatim>\<open>str\<close> on floats.
\<close>

fun write_weight_loop ::
  "('s \<Rightarrow> string) \<Rightarrow> nat \<Rightarrow> ('s::uminus \<times> 'w) list \<Rightarrow> string list \<Rightarrow> string list" where
  "write_weight_loop str_f idx [] els = els"
| "write_weight_loop str_f idx (score # rest) els =
     write_weight_loop str_f (idx + 1) rest
       ((els @ [str_int (int idx + 1)]) @ [str_f (- fst score)])"

definition write_weight :: "('s \<Rightarrow> string) \<Rightarrow> ('s::uminus \<times> 'w) list \<Rightarrow> string" where
  "write_weight str_f breakdown =
     join '','' (write_weight_loop str_f 0 breakdown [''0''])"


section \<open>output.py: NBestOutputHandler.__init__\<close>

text \<open>
  \<^verbatim>\<open>
  self.predictor_names = []
  name_count = {}
  for name in predictor_names:
      if not name in name_count:
          name_count[name] = 1
          final_name = name
      else:
          name_count[name] += 1
          final_name = "%s%d" % (name, name_count[name])
      self.predictor_names.append(final_name.replace("_", "0"))
  \<close>
  The dict \<open>name_count\<close> is a map from names to counts; the loop threads it and the
  list built so far.
\<close>

fun predictor_names_loop ::
  "string list \<Rightarrow> (string \<rightharpoonup> nat) \<Rightarrow> string list \<Rightarrow> string list" where
  "predictor_names_loop [] name_count acc = acc"
| "predictor_names_loop (name # rest) name_count acc =
     (case name_count name of
        None \<Rightarrow>
          predictor_names_loop rest (name_count(name \<mapsto> 1))
            (acc @ [replace_underscore name])
      | Some c \<Rightarrow>
          predictor_names_loop rest (name_count(name \<mapsto> c + 1))
            (acc @ [replace_underscore (name @ str_int (int (c + 1)))]))"

definition NBestOutputHandler_init :: "string list \<Rightarrow> string list" where
  "NBestOutputHandler_init predictor_names = predictor_names_loop predictor_names Map.empty []"

text \<open>
  The name the specification describes for position \<open>i\<close>: \<open>k\<close> is the number of this
  occurrence of the name (1 for the first one).
\<close>

definition derived_name :: "string list \<Rightarrow> nat \<Rightarrow> string" where
  "derived_name names i =
     (let name = names ! i; k = count_list (take i names) name + 1
      in replace_underscore (if k = 1 then name else name @ str_int (int k)))"



section \<open>Hypotheses as the output handlers read them\<close>

text \<open>
  The handlers read three attributes of a finished hypothesis: \<^verbatim>\<open>trgt_sentence\<close>,
  \<^verbatim>\<open>total_score\<close> and \<^verbatim>\<open>score_breakdown\<close>, the latter a list with one entry per
  step, each entry a list of (score, weight) tuples indexed by predictor.
\<close>

record ('s, 'w) hypothesis =
  trgt_sentence :: "symbol list"
  total_score :: 's
  score_breakdown :: "('s \<times> 'w) list list"


section \<open>output.py: NBestOutputHandler.write_hypos\<close>

text \<open>
  \<^verbatim>\<open>
  with codecs.open(self.path, "w", encoding='utf-8') as f:
      n_predictors = len(self.predictor_names)
      for idx, hypos in zip(sen_indices, all_hypos):
          for hypo in hypos:
              f.write("%d ||| %s ||| %s ||| %f" %
                      (idx,
                       io.decode(hypo.trgt_sentence),
                       ' '.join("%s= %f" % (
                            self.predictor_names[i],
                            sum([s[i][0] for s in hypo.score_breakdown]))
                                for i in range(n_predictors)),
                       hypo.total_score))
              f.write("\n")
          idx += 1
  \<close>
  \<open>decode\<close> is \<^verbatim>\<open>io.decode\<close> and \<open>fmt_f\<close> the \<^verbatim>\<open>%f\<close> conversion of a float. The
  subscript \<^verbatim>\<open>s[i]\<close> raises IndexError on a step with fewer than \<open>i + 1\<close> entries.
  The final \<^verbatim>\<open>idx += 1\<close> rebinds a loop variable that the next iteration overwrites.
  The result is the text written to the file, or the exception that left the function.
\<close>

fun primary_column :: "nat \<Rightarrow> ('s \<times> 'w) list list \<Rightarrow> error + 's list" where
  "primary_column i [] = Inr []"
| "primary_column i (s # rest) =
     (if i < length s then
        (case primary_column i rest of
           Inl e \<Rightarrow> Inl e
         | Inr col \<Rightarrow> Inr (fst (s ! i) # col))
      else Inl IndexError)"

fun predictor_fields ::
  "('s::{zero,plus} \<Rightarrow> string) \<Rightarrow> string list \<Rightarrow> ('s \<times> 'w) list list \<Rightarrow> nat list
     \<Rightarrow> error + string list" where
  "predictor_fields fmt_f names bd [] = Inr []"
| "predictor_fields fmt_f names bd (i # rest) =
     (case primary_column i bd of
        Inl e \<Rightarrow> Inl e
      | Inr col \<Rightarrow>
          (case predictor_fields fmt_f names bd rest of
             Inl e \<Rightarrow> Inl e
           | Inr flds \<Rightarrow> Inr ((names ! i @ ''= '' @ fmt_f (py_sum col)) # flds)))"

definition nbest_line ::
  "(symbol list \<Rightarrow> string) \<Rightarrow> ('s::{zero,plus} \<Rightarrow> string) \<Rightarrow> string list \<Rightarrow> int
     \<Rightarrow> ('s, 'w) hypothesis \<Rightarrow> error + string" where
  "nbest_line decode fmt_f predictor_names idx hypo =
     (case predictor_fields fmt_f predictor_names (score_breakdown hypo)
             [0..<length predictor_names] of
        Inl e \<Rightarrow> Inl e
      | Inr flds \<Rightarrow>
          Inr (str_int idx @ '' ||| '' @ decode (trgt_sentence hypo) @ '' ||| '' @
               join '' '' flds @ '' ||| '' @ fmt_f (total_score hypo)))"

fun nbest_write_list ::
  "(symbol list \<Rightarrow> string) \<Rightarrow> ('s::{zero,plus} \<Rightarrow> string) \<Rightarrow> string list \<Rightarrow> int
     \<Rightarrow> ('s, 'w) hypothesis list \<Rightarrow> string \<Rightarrow> error + string" where
  "nbest_write_list decode fmt_f predictor_names idx [] f = Inr f"
| "nbest_write_list decode fmt_f predictor_names idx (hypo # hypos) f =
     (case nbest_line decode fmt_f predictor_names idx hypo of
        Inl e \<Rightarrow> Inl e
      | Inr line \<Rightarrow>
          nbest_write_list decode fmt_f predictor_names idx hypos ((f @ line) @ newline))"

fun nbest_write_loop ::
  "(symbol list \<Rightarrow> string) \<Rightarrow> ('s::{zero,plus} \<Rightarrow> string) \<Rightarrow> string list
     \<Rightarrow> (int \<times> ('s, 'w) hypothesis list) list \<Rightarrow> string \<Rightarrow> error + string" where
  "nbest_write_loop decode fmt_f predictor_names [] f = Inr f"
| "nbest_write_loop decode fmt_f predictor_names ((idx, hypos) # rest) f =
     (case nbest_write_list decode fmt_f predictor_names idx hypos f of
        Inl e \<Rightarrow> Inl e
      | Inr f' \<Rightarrow> nbest_write_loop decode fmt_f predictor_names rest f')"

definition NBestOutputHandler_write_hypos ::
  "(symbol list \<Rightarrow> string) \<Rightarrow> ('s::{zero,plus} \<Rightarrow> string) \<Rightarrow> string list
     \<Rightarrow> ('s, 'w) hypothesis list list \<Rightarrow> int list \<Rightarrow> error + string" where
  "NBestOutputHandler_write_hypos decode fmt_f predictor_names all_hypos sen_indices =
     nbest_write_loop decode fmt_f predictor_names (zip sen_indices all_hypos) []"

text \<open>
  The line of the Moses n-best format as the specification words it: index, decoded
  text, one \<open>name= value\<close> field per predictor whose value is the sum of that
  predictor's primary score component over all steps, and the total score.
\<close>

definition moses_line ::
  "(symbol list \<Rightarrow> string) \<Rightarrow> ('s::monoid_add \<Rightarrow> string) \<Rightarrow> string list \<Rightarrow> int
     \<Rightarrow> ('s, 'w) hypothesis \<Rightarrow> string" where
  "moses_line decode fmt_f names idx hypo =
     str_int idx @ '' ||| '' @ decode (trgt_sentence hypo) @ '' ||| '' @
     join '' ''
       (map (\<lambda>i. names ! i @ ''= '' @
                  fmt_f (\<Sum>step \<leftarrow> score_breakdown hypo. fst (step ! i)))
            [0..<length names]) @
     '' ||| '' @ fmt_f (total_score hypo) @ newline"

text \<open>Every step of every hypothesis has an entry for each of the \<open>n\<close> predictors.\<close>

definition breakdowns_cover :: "nat \<Rightarrow> ('s, 'w) hypothesis list list \<Rightarrow> bool" where
  "breakdowns_cover n all_hypos =
     (\<forall>hypos \<in> set all_hypos. \<forall>hypo \<in> set hypos. \<forall>step \<in> set (score_breakdown hypo).
        n \<le> length step)"

text \<open>
  A decoding function to run the handlers on: it writes the ids in decimal, separated
  by blanks.
\<close>

definition example_decode :: "symbol list \<Rightarrow> string" where
  "example_decode syms = join '' '' (map str_int syms)"

section \<open>Files\<close>

text \<open>
  A file object returned by \<^verbatim>\<open>codecs.open(p, "w")\<close>: the text written through it since
  it was opened (mode \<^verbatim>\<open>"w"\<close> truncates, so this is the text of the file), and whether
  it has been closed. Writing to a closed file raises ValueError.
\<close>

record pyfile =
  file_closed :: bool
  file_text :: string

definition codecs_open_w :: pyfile where
  "codecs_open_w = \<lparr>file_closed = False, file_text = []\<rparr>"

definition file_write :: "pyfile \<Rightarrow> string \<Rightarrow> error + pyfile" where
  "file_write fl s =
     (if file_closed fl then Inl ValueError else Inr (fl\<lparr>file_text := file_text fl @ s\<rparr>))"

text \<open>\<^verbatim>\<open>str(xs)\<close> for a list of floats, \<open>repr_f\<close> being \<^verbatim>\<open>repr\<close> on floats.\<close>

definition str_list :: "('s \<Rightarrow> string) \<Rightarrow> 's list \<Rightarrow> string" where
  "str_list repr_f xs = ''['' @ join '', '' (map repr_f xs) @ '']''"


section \<open>output.py: ScoreOutputHandler\<close>

text \<open>
  \<^verbatim>\<open>
  def __init__(self, path):
      super(ScoreOutputHandler, self).__init__()
      self.path = path
      self.open_file()

  def write_score(self, score):
      def write(f_, score):
          f_.write(str([s[0][0] for s in score]))
          f_.write("\n")
          f_.flush()
      if self.f is not None:
          write(self.f, score)
      else:
          with codecs.open(self.path, "w", encoding='utf-8') as f:
              write(f, score)

  def write_hypos(self, all_hypos, sen_indices=None):
      pass

  def open_file(self):
      self.f = codecs.open(self.path, "w", encoding='utf-8')

  def close_file(self):
      self.f.close()
  \<close>
  The handler's state is its attribute \<^verbatim>\<open>f\<close> (\<open>None\<close> when it holds Python's None)
  and, for the branch that opens the path on its own, the text of the file it wrote
  there. A function returns the new state, or the exception that left it.
\<close>

record score_handler =
  score_f :: "pyfile option"
  score_path_text :: string

definition ScoreOutputHandler_open_file :: "score_handler \<Rightarrow> score_handler" where
  "ScoreOutputHandler_open_file h = h\<lparr>score_f := Some codecs_open_w\<rparr>"

definition ScoreOutputHandler_init :: score_handler where
  "ScoreOutputHandler_init =
     ScoreOutputHandler_open_file \<lparr>score_f = None, score_path_text = []\<rparr>"

definition ScoreOutputHandler_close_file :: "score_handler \<Rightarrow> error + score_handler" where
  "ScoreOutputHandler_close_file h =
     (case score_f h of
        None \<Rightarrow> Inl AttributeError
      | Some fl \<Rightarrow> Inr (h\<lparr>score_f := Some (fl\<lparr>file_closed := True\<rparr>)\<rparr>))"

text \<open>
  The inner \<^verbatim>\<open>write(f_, score)\<close>: the argument of the first \<^verbatim>\<open>write\<close> is evaluated
  before the file is touched.
\<close>

definition score_write :: "('s \<Rightarrow> string) \<Rightarrow> pyfile \<Rightarrow> ('s \<times> 'w) list list \<Rightarrow> error + pyfile" where
  "score_write repr_f fl score =
     (case primary_column 0 score of
        Inl e \<Rightarrow> Inl e
      | Inr col \<Rightarrow>
          (case file_write fl (str_list repr_f col) of
             Inl e \<Rightarrow> Inl e
           | Inr fl' \<Rightarrow> file_write fl' newline))"

definition ScoreOutputHandler_write_score ::
  "('s \<Rightarrow> string) \<Rightarrow> score_handler \<Rightarrow> ('s \<times> 'w) list list \<Rightarrow> error + score_handler" where
  "ScoreOutputHandler_write_score repr_f h score =
     (case score_f h of
        Some fl \<Rightarrow>
          (case score_write repr_f fl score of
             Inl e \<Rightarrow> Inl e
           | Inr fl' \<Rightarrow> Inr (h\<lparr>score_f := Some fl'\<rparr>))
      | None \<Rightarrow>
          (case score_write repr_f codecs_open_w score of
             Inl e \<Rightarrow> Inl e
           | Inr fl' \<Rightarrow> Inr (h\<lparr>score_path_text := file_text fl'\<rparr>)))"

definition ScoreOutputHandler_write_hypos ::
  "score_handler \<Rightarrow> ('s, 'w) hypothesis list list \<Rightarrow> int list option \<Rightarrow> score_handler" where
  "ScoreOutputHandler_write_hypos h all_hypos sen_indices = h"

text \<open>The line the specification describes for one score breakdown.\<close>

definition score_line :: "('s \<Rightarrow> string) \<Rightarrow> ('s \<times> 'w) list list \<Rightarrow> string" where
  "score_line repr_f score =
     ''['' @ join '', '' (map (\<lambda>step. repr_f (fst (hd step))) score) @ '']'' @ newline"


section \<open>output.py: NBestSeparateOutputHandler\<close>

text \<open>
  \<^verbatim>\<open>
  def __init__(self, path, N):
      super(NBestSeparateOutputHandler, self).__init__()
      self.paths = [path + '_' + str(i) + '.txt' for i in range(N)]

  def write_hypos(self, all_hypos, sen_indices=None):
      if not self.f:
          self.open_file()
      for hypos in all_hypos:
          while len(hypos) < len(self.f):
              hypos.append(hypos[-1])
          for i in range(len(self.f)):
              self.f[i].write(io.decode(hypos[i].trgt_sentence))
              self.f[i].write("\n")
              self.f[i].flush()

  def open_file(self):
      self.f = []
      for p in self.paths:
          self.f.append(codecs.open(p, "w", encoding='utf-8'))

  def close_file(self):
      for f in self.f:
          f.close()
  \<close>
  The constructor does not set the attribute \<^verbatim>\<open>f\<close>: \<open>sep_f = None\<close> stands for the
  unset attribute, whose read raises AttributeError. The lists of \<^verbatim>\<open>all_hypos\<close> are
  extended in place, so \<^verbatim>\<open>write_hypos\<close> returns them with the handler.
\<close>

record sep_handler =
  sep_paths :: "string list"
  sep_f :: "pyfile list option"

definition NBestSeparateOutputHandler_init :: "string \<Rightarrow> int \<Rightarrow> sep_handler" where
  "NBestSeparateOutputHandler_init path N =
     \<lparr>sep_paths = map (\<lambda>i. path @ ''_'' @ str_int (int i) @ ''.txt'') [0..<nat N],
      sep_f = None\<rparr>"

definition NBestSeparateOutputHandler_open_file :: "sep_handler \<Rightarrow> sep_handler" where
  "NBestSeparateOutputHandler_open_file h =
     h\<lparr>sep_f := Some (map (\<lambda>p. codecs_open_w) (sep_paths h))\<rparr>"

definition NBestSeparateOutputHandler_close_file :: "sep_handler \<Rightarrow> error + sep_handler" where
  "NBestSeparateOutputHandler_close_file h =
     (case sep_f h of
        None \<Rightarrow> Inl AttributeError
      | Some fs \<Rightarrow> Inr (h\<lparr>sep_f := Some (map (\<lambda>fl. fl\<lparr>file_closed := True\<rparr>) fs)\<rparr>))"

text \<open>
  \<^verbatim>\<open>while len(hypos) < len(self.f): hypos.append(hypos[-1])\<close>;
  \<^verbatim>\<open>hypos[-1]\<close> raises IndexError on the empty list.
\<close>

function pad_hypos :: "nat \<Rightarrow> 'h list \<Rightarrow> error + 'h list" where
  "pad_hypos n hypos =
     (if length hypos < n then
        (if hypos = [] then Inl IndexError else pad_hypos n (hypos @ [last hypos]))
      else Inr hypos)"
  by pat_completeness auto
termination
  by (relation "measure (\<lambda>(n, hypos). n - length hypos)") auto

declare pad_hypos.simps [simp del]

text \<open>\<^verbatim>\<open>for i in range(len(self.f))\<close>, over the indices still to be written.\<close>

fun sep_write_ranks ::
  "(symbol list \<Rightarrow> string) \<Rightarrow> ('s, 'w) hypothesis list \<Rightarrow> nat list \<Rightarrow> pyfile list
     \<Rightarrow> error + pyfile list" where
  "sep_write_ranks decode hypos [] fs = Inr fs"
| "sep_write_ranks decode hypos (i # rest) fs =
     (case file_write (fs ! i) (decode (trgt_sentence (hypos ! i))) of
        Inl e \<Rightarrow> Inl e
      | Inr fl \<Rightarrow>
          (case file_write fl newline of
             Inl e \<Rightarrow> Inl e
           | Inr fl' \<Rightarrow> sep_write_ranks decode hypos rest (fs[i := fl'])))"

text \<open>\<^verbatim>\<open>for hypos in all_hypos\<close>; \<open>acc\<close> collects the lists already padded.\<close>

fun sep_write_loop ::
  "(symbol list \<Rightarrow> string) \<Rightarrow> ('s, 'w) hypothesis list list \<Rightarrow> pyfile list
     \<Rightarrow> ('s, 'w) hypothesis list list \<Rightarrow> error + (pyfile list \<times> ('s, 'w) hypothesis list list)" where
  "sep_write_loop decode [] fs acc = Inr (fs, acc)"
| "sep_write_loop decode (hypos # rest) fs acc =
     (case pad_hypos (length fs) hypos of
        Inl e \<Rightarrow> Inl e
      | Inr padded \<Rightarrow>
          (case sep_write_ranks decode padded [0..<length fs] fs of
             Inl e \<Rightarrow> Inl e
           | Inr fs' \<Rightarrow> sep_write_loop decode rest fs' (acc @ [padded])))"

definition NBestSeparateOutputHandler_write_hypos ::
  "(symbol list \<Rightarrow> string) \<Rightarrow> sep_handler \<Rightarrow> ('s, 'w) hypothesis list list
     \<Rightarrow> error + (sep_handler \<times> ('s, 'w) hypothesis list list)" where
  "NBestSeparateOutputHandler_write_hypos decode h all_hypos =
     (case sep_f h of
        None \<Rightarrow> Inl AttributeError
      | Some fs0 \<Rightarrow>
          (let h1 = (if fs0 = [] then NBestSeparateOutputHandler_open_file h else h);
               fs = the (sep_f h1)
           in case sep_write_loop decode all_hypos fs [] of
                Inl e \<Rightarrow> Inl e
              | Inr (fs', all_hypos') \<Rightarrow> Inr (h1\<lparr>sep_f := Some fs'\<rparr>, all_hypos')))"

text \<open>
  What the specification says file \<open>i\<close> receives for one input: the text of the
  hypothesis of rank \<open>i\<close>, or of the last one when the list is shorter.
\<close>

definition rank_line :: "(symbol list \<Rightarrow> string) \<Rightarrow> nat \<Rightarrow> ('s, 'w) hypothesis list \<Rightarrow> string" where
  "rank_line decode i hypos =
     decode (trgt_sentence (if i < length hypos then hypos ! i else last hypos)) @ newline"

definition files_open :: "pyfile list \<Rightarrow> bool" where
  "files_open fs = (\<forall>fl \<in> set fs. \<not> file_closed fl)"

section \<open>output.py: NgramOutputHandler.write_hypos\<close>

text \<open>
  \<^verbatim>\<open>
  _mkdir(self.path, "ngram")
  for sen_idx, hypos in zip(sen_indices, all_hypos):
      sen_idx += 1
      total = utils.log_sum([hypo.total_score for hypo in hypos])
      normed_scores = [hypo.total_score - total for hypo in hypos]
      ngrams = defaultdict(dict)
      # Collect ngrams
      for hypo_idx, hypo in enumerate(hypos):
          sen_eos = [utils.GO_ID] + hypo.trgt_sentence + [utils.EOS_ID]
          for pos in range(1, len(sen_eos) + 1):
              hist = sen_eos[:pos]
              for order in range(self.min_order, self.max_order + 1):
                  ngram = ' '.join(map(str, hist[-order:]))
                  ngrams[ngram][hypo_idx] = True
      with open(self.file_pattern % sen_idx, "w") as f:
          for ngram, hypo_indices in ngrams.items():
              ngram_score = np.exp(utils.log_sum(
                 [normed_scores[hypo_idx] for hypo_idx in hypo_indices]))
              f.write("%s : %f\n" % (ngram, min(1.0, ngram_score)))
  \<close>
  Scores are real numbers here and \<^verbatim>\<open>np.exp\<close> the real exponential: rounding of
  floats is not modelled. \<^verbatim>\<open>utils.log_sum\<close>, \<^verbatim>\<open>utils.GO_ID\<close> and
  \<^verbatim>\<open>utils.EOS_ID\<close> are not part of the sources and are parameters. The dict of
  dicts \<open>ngrams\<close> iterates in insertion order (Python 3.7 and later), so it is an association list from the
  n-gram string to the list of hypothesis indices, each in order of first insertion.
  The directory creation of \<^verbatim>\<open>_mkdir\<close> is left out; the files written are a map from
  the number in the file name to the text.
\<close>













section \<open>The n-gram posteriors as the specification describes them\<close>



text \<open>The distinct elements of a list, in the order of their first occurrence.\<close>

definition first_occurrences :: "'a list \<Rightarrow> 'a list" where
  "first_occurrences xs = rev (remdups (rev xs))"







section \<open>reference.py: ReferenceDecoder\<close>

text \<open>
  \<^verbatim>\<open>
  def decode(self, src_sentence, trgt_sentence):
      self.trgt_sentence = trgt_sentence + [utils.EOS_ID]
      self.initialize_predictors(src_sentence)

      hypo = PartialHypothesis(self.get_predictor_states())
      while hypo.get_last_word() != utils.EOS_ID:
          self._expand_hypo(hypo)

      hypo.score = self.get_adjusted_score(hypo)
      self.add_full_hypo(hypo.generate_full_hypothesis())
      return self.get_full_hypos_sorted()

  def _expand_hypo(self,hypo):

      self.set_predictor_states(hypo.predictor_states)
      next_word = self.trgt_sentence[len(hypo.trgt_sentence)]
      ids, posterior, _ = self.apply_predictors()
      ind = utils.binary_search(ids, k)

      max_score = utils.max_(posterior)
      hypo.predictor_states = self.get_predictor_states()

      hypo.score += posterior[ind]
      hypo.score_breakdown.append(posterior[ind])
      hypo.trgt_sentence += [next_word]
      self.consume(next_word)
  \<close>
  The base class \<^verbatim>\<open>Decoder\<close>, the class \<^verbatim>\<open>PartialHypothesis\<close> (both of
  \<^verbatim>\<open>core.py\<close>) and the module \<^verbatim>\<open>utils\<close> are not part of the sources. The methods
  and constants the decoder takes from them are the fields of \<open>decoder_ops\<close>, over an
  arbitrary type \<open>'st\<close> of live ensemble states and an arbitrary type \<open>'snap\<close> of
  snapshots; the ensemble is mutable, so every method that can change it takes the state
  and returns the new one.
  The module \<^verbatim>\<open>utils\<close> is taken to have the attributes \<^verbatim>\<open>binary_search\<close> and
  \<^verbatim>\<open>max_\<close> that the method names.
\<close>

text \<open>
  A partial hypothesis, with the attributes \<^verbatim>\<open>_expand_hypo\<close> reads and writes. The
  breakdown holds what the method appends to it, an element of \<^verbatim>\<open>posterior\<close>.
\<close>

record ('snap, 'sc) partial_hypothesis =
  predictor_states :: 'snap
  trgt_sentence_p :: "symbol list"
  score_p :: 'sc
  score_breakdown_p :: "'sc list"

record ('st, 'snap, 'sc, 'bd) decoder_ops =
  initialize_predictors :: "symbol list \<Rightarrow> 'st \<Rightarrow> 'st"
  set_predictor_states :: "'snap \<Rightarrow> 'st \<Rightarrow> 'st"
  get_predictor_states :: "'st \<Rightarrow> 'snap"
  apply_predictors :: "'st \<Rightarrow> (symbol list \<times> 'sc list \<times> 'bd) \<times> 'st"
  consume :: "symbol \<Rightarrow> 'st \<Rightarrow> 'st"
  get_adjusted_score :: "('snap, 'sc) partial_hypothesis \<Rightarrow> 'sc"
  utils_binary_search :: "symbol list \<Rightarrow> symbol \<Rightarrow> error + int"
  utils_max :: "'sc list \<Rightarrow> 'sc"
  utils_EOS_ID :: symbol

text \<open>
  Modelled from the spec: the constructor and \<^verbatim>\<open>get_last_word\<close> of
  \<^verbatim>\<open>PartialHypothesis\<close>, which are not in the sources. The root hypothesis has an empty
  prefix, a zero score and the initial snapshot; the last word is the last emitted
  symbol, and there is none for the empty prefix.
\<close>

definition PartialHypothesis :: "'snap \<Rightarrow> ('snap, 'sc::zero) partial_hypothesis" where
  "PartialHypothesis initial_states =
     \<lparr>predictor_states = initial_states, trgt_sentence_p = [], score_p = 0,
      score_breakdown_p = []\<rparr>"

definition get_last_word :: "('snap, 'sc) partial_hypothesis \<Rightarrow> symbol option" where
  "get_last_word hypo =
     (if trgt_sentence_p hypo = [] then None else Some (last (trgt_sentence_p hypo)))"

text \<open>
  \<^verbatim>\<open>xs[i]\<close> for an int \<open>i\<close>: a negative index counts from the end, and an index
  outside the list raises IndexError.
\<close>

definition py_index :: "'a list \<Rightarrow> int \<Rightarrow> error + 'a" where
  "py_index xs i =
     (if 0 \<le> i \<and> i < int (length xs) then Inr (xs ! nat i)
      else if i < 0 \<and> - i \<le> int (length xs) then Inr (xs ! nat (int (length xs) + i))
      else Inl IndexError)"

text \<open>
  The name \<^verbatim>\<open>k\<close> in \<^verbatim>\<open>utils.binary_search(ids, k)\<close> is neither a parameter nor a
  local variable of \<^verbatim>\<open>_expand_hypo\<close>, so Python looks it up among the globals of the
  module and the built-ins when the line runs, and raises NameError when it finds
  none. \<open>global_k\<close> is that binding. The module as written neither defines nor imports
  a \<^verbatim>\<open>k\<close>: for it \<open>global_k = None\<close>.
  The result is the hypothesis and the ensemble after the step, or the exception that
  left the method.
\<close>

definition expand_hypo ::
  "('st, 'snap, 'sc::plus, 'bd) decoder_ops \<Rightarrow> symbol option \<Rightarrow> symbol list
     \<Rightarrow> ('snap, 'sc) partial_hypothesis \<Rightarrow> 'st
     \<Rightarrow> error + (('snap, 'sc) partial_hypothesis \<times> 'st)" where
  "expand_hypo ops global_k trgt hypo st =
     (let st1 = set_predictor_states ops (predictor_states hypo) st in
      if length trgt \<le> length (trgt_sentence_p hypo) then Inl IndexError
      else
        let next_word = trgt ! length (trgt_sentence_p hypo);
            ((ids, posterior, _), st2) = apply_predictors ops st1
        in case global_k of
             None \<Rightarrow> Inl NameError
           | Some k \<Rightarrow>
               (case utils_binary_search ops ids k of
                  Inl e \<Rightarrow> Inl e
                | Inr ind \<Rightarrow>
                    let max_score = utils_max ops posterior;
                        hypo1 = hypo\<lparr>predictor_states := get_predictor_states ops st2\<rparr>
                    in case py_index posterior ind of
                         Inl e \<Rightarrow> Inl e
                       | Inr s \<Rightarrow>
                           let hypo2 = hypo1\<lparr>score_p := score_p hypo1 + s\<rparr>;
                               hypo3 = hypo2\<lparr>score_breakdown_p := score_breakdown_p hypo2 @ [s]\<rparr>;
                               hypo4 = hypo3\<lparr>trgt_sentence_p := trgt_sentence_p hypo3 @ [next_word]\<rparr>
                           in Inr (hypo4, consume ops next_word st2)))"

text \<open>\<^verbatim>\<open>while hypo.get_last_word() != utils.EOS_ID: self._expand_hypo(hypo)\<close>\<close>

function decode_loop ::
  "('st, 'snap, 'sc::plus, 'bd) decoder_ops \<Rightarrow> symbol option \<Rightarrow> symbol list
     \<Rightarrow> ('snap, 'sc) partial_hypothesis \<Rightarrow> 'st
     \<Rightarrow> error + (('snap, 'sc) partial_hypothesis \<times> 'st)" where
  "decode_loop ops global_k trgt hypo st =
     (if get_last_word hypo \<noteq> Some (utils_EOS_ID ops) then
        (case expand_hypo ops global_k trgt hypo st of
           Inl e \<Rightarrow> Inl e
         | Inr (hypo', st') \<Rightarrow> decode_loop ops global_k trgt hypo' st')
      else Inr (hypo, st))"
  by pat_completeness auto
termination
  by (relation "measure (\<lambda>(ops, global_k, trgt, hypo, st).
                    length trgt - length (trgt_sentence_p hypo))")
     (auto simp: expand_hypo_def Let_def
           split: if_splits sum.splits option.splits prod.splits)

declare decode_loop.simps [simp del]

text \<open>
  \<^verbatim>\<open>decode\<close>. What \<^verbatim>\<open>generate_full_hypothesis\<close>, \<^verbatim>\<open>add_full_hypo\<close> and
  \<^verbatim>\<open>get_full_hypos_sorted\<close> do is not in the sources; the result here is the finished
  hypothesis with its adjusted score, and the ensemble.
\<close>

definition ReferenceDecoder_decode ::
  "('st, 'snap, 'sc::{zero,plus}, 'bd) decoder_ops \<Rightarrow> symbol option \<Rightarrow> symbol list \<Rightarrow> symbol list
     \<Rightarrow> 'st \<Rightarrow> error + (('snap, 'sc) partial_hypothesis \<times> 'st)" where
  "ReferenceDecoder_decode ops global_k src_sentence trgt_sentence0 st =
     (let trgt = trgt_sentence0 @ [utils_EOS_ID ops];
          st1 = initialize_predictors ops src_sentence st;
          hypo = PartialHypothesis (get_predictor_states ops st1)
      in case decode_loop ops global_k trgt hypo st1 of
           Inl e \<Rightarrow> Inl e
         | Inr (hypo', st') \<Rightarrow> Inr (hypo'\<lparr>score_p := get_adjusted_score ops hypo'\<rparr>, st'))"

text \<open>
  An ensemble to run the decoder on: one predictor whose state is the list of symbols
  consumed so far and whose snapshot is that list. At every state it offers the
  candidates 2, 5 and 9 with the combined scores -3, -1 and -2 and the per-predictor
  vectors \<open>[(-3, 1)]\<close>, \<open>[(-1, 1)]\<close> and \<open>[(-2, 1)]\<close>; 2 is the end-of-sequence
  symbol. The search returns the position of the symbol among the ids and raises
  ValueError when it is not there.
\<close>

definition example_search :: "symbol list \<Rightarrow> symbol \<Rightarrow> error + int" where
  "example_search ids x =
     (if x \<in> set ids then Inr (int (length (takeWhile (\<lambda>y. y \<noteq> x) ids))) else Inl ValueError)"

definition example_ops ::
  "(symbol list, symbol list, int, (int \<times> int) list list) decoder_ops" where
  "example_ops =
     \<lparr>initialize_predictors = (\<lambda>src st. []),
      set_predictor_states = (\<lambda>snap st. snap),
      get_predictor_states = (\<lambda>st. st),
      apply_predictors = (\<lambda>st. (([2, 5, 9], [- 3, - 1, - 2],
                                   [[(- 3, 1)], [(- 1, 1)], [(- 2, 1)]]), st)),
      consume = (\<lambda>w st. st @ [w]),
      get_adjusted_score = score_p,
      utils_binary_search = example_search,
      utils_max = (\<lambda>xs. fold max xs (hd xs)),
      utils_EOS_ID = 2\<rparr>"
section \<open>Facts about the built-ins\<close>

lemma upt_shift_Cons:
  "[0..<Suc n] = 0 # map Suc [0..<n]"
  by (simp add: upt_conv_Cons map_Suc_upt del: upt_Suc)


section \<open>The sparse-tuple arc weight\<close>

lemma write_weight_loop_closed:
  "write_weight_loop str_f idx sb els =
     els @ concat (map (\<lambda>i. [str_int (int (idx + i) + 1), str_f (- fst (sb ! i))])
                       [0..<length sb])"
proof (induction sb arbitrary: idx els)
  case Nil
  then show ?case by simp
next
  case (Cons s rest)
  have "write_weight_loop str_f idx (s # rest) els =
          write_weight_loop str_f (idx + 1) rest
            ((els @ [str_int (int idx + 1)]) @ [str_f (- fst s)])"
    by simp
  also have "\<dots> = ((els @ [str_int (int idx + 1)]) @ [str_f (- fst s)]) @
        concat (map (\<lambda>i. [str_int (int (idx + 1 + i) + 1), str_f (- fst (rest ! i))])
                    [0..<length rest])"
    by (rule Cons.IH)
  also have "\<dots> = els @
        concat (map (\<lambda>i. [str_int (int (idx + i) + 1), str_f (- fst ((s # rest) ! i))])
                    [0..<length (s # rest)])"
    by (simp add: upt_shift_Cons comp_def del: upt_Suc)
  finally show ?case .
qed

text \<open>
  C9. For every step's score breakdown, the weight string is the comma-joined list that
  starts with \<open>0\<close> and then holds, for each predictor index \<open>i\<close> in order, \<open>i + 1\<close> and
  the negated primary component of entry \<open>i\<close>: every predictor keeps its own pair of
  fields, nothing is summed or otherwise combined.
\<close>

theorem write_weight_sparse_tuple:
  "write_weight str_f breakdown =
     join '',''
       (''0'' # concat (map (\<lambda>i. [str_int (int i + 1), str_f (- fst (breakdown ! i))])
                            [0..<length breakdown]))"
  by (simp add: write_weight_def write_weight_loop_closed)

section \<open>The derived predictor names\<close>

lemma predictor_names_loop_closed:
  assumes "\<And>n. name_count n = (if count_list pre n = 0 then None else Some (count_list pre n))"
  shows "predictor_names_loop rest name_count acc =
     acc @ map (\<lambda>i. derived_name (pre @ rest) (length pre + i)) [0..<length rest]"
  using assms
proof (induction rest arbitrary: pre name_count acc)
  case Nil
  then show ?case by simp
next
  case (Cons name rest)
  let ?c = "count_list pre name"
  let ?nc = "name_count(name \<mapsto> ?c + 1)"
  have inv: "\<And>n. ?nc n = (if count_list (pre @ [name]) n = 0 then None
                              else Some (count_list (pre @ [name]) n))"
    using Cons.prems by simp
  have here: "derived_name (pre @ name # rest) (length pre) =
       replace_underscore (if ?c = 0 then name else name @ str_int (int (?c + 1)))"
    by (simp add: derived_name_def Let_def)
  have later: "\<And>i. derived_name (pre @ name # rest) (length pre + Suc i) =
       derived_name ((pre @ [name]) @ rest) (length (pre @ [name]) + i)"
    by simp
  have step: "predictor_names_loop (name # rest) name_count acc =
      predictor_names_loop rest ?nc (acc @ [derived_name (pre @ name # rest) (length pre)])"
    using Cons.prems[of name] by (simp add: here)
  show ?case
    unfolding step Cons.IH[OF inv]
    by (simp add: upt_shift_Cons later comp_def del: upt_Suc)
qed

text \<open>
  C10. The list stored by the constructor has one name per configured name, at the same
  position: the configured name itself at its first occurrence, the name followed by
  \<open>k\<close> at its \<open>k\<close>-th occurrence for \<open>k \<ge> 2\<close>, and in both cases with every
  underscore replaced by the digit 0 afterwards.
\<close>

theorem predictor_names_derived:
  "length (NBestOutputHandler_init predictor_names) = length predictor_names \<and>
   (\<forall>i < length predictor_names.
      NBestOutputHandler_init predictor_names ! i = derived_name predictor_names i)"
proof -
  have "NBestOutputHandler_init predictor_names =
          map (derived_name predictor_names) [0..<length predictor_names]"
    unfolding NBestOutputHandler_init_def
    using predictor_names_loop_closed[of Map.empty "[]" predictor_names "[]"] by simp
  then show ?thesis by simp
qed

theorem predictor_names_derived_witness:
  "(2::nat) < length [''nmt'', ''fst_lm'', ''nmt''] \<and>
   NBestOutputHandler_init [''nmt'', ''fst_lm'', ''nmt''] ! 2 = ''nmt2'' \<and>
   NBestOutputHandler_init [''nmt'', ''fst_lm'', ''nmt''] ! 1 = ''fst0lm''"
proof -
  have l: "(2::nat) < length [''nmt'', ''fst_lm'', ''nmt'']" by simp
  have d2: "derived_name [''nmt'', ''fst_lm'', ''nmt''] 2 = ''nmt2''" by code_simp
  have d1: "derived_name [''nmt'', ''fst_lm'', ''nmt''] 1 = ''fst0lm''" by code_simp
  from predictor_names_derived[of "[''nmt'', ''fst_lm'', ''nmt'']"]
  have "\<forall>i<3. NBestOutputHandler_init [''nmt'', ''fst_lm'', ''nmt''] ! i =
                derived_name [''nmt'', ''fst_lm'', ''nmt''] i"
    by simp
  then have "NBestOutputHandler_init [''nmt'', ''fst_lm'', ''nmt''] ! 2 =
               derived_name [''nmt'', ''fst_lm'', ''nmt''] 2"
    and "NBestOutputHandler_init [''nmt'', ''fst_lm'', ''nmt''] ! 1 =
               derived_name [''nmt'', ''fst_lm'', ''nmt''] 1"
    by simp_all
  with l d1 d2 show ?thesis by simp
qed


section \<open>The Moses n-best file\<close>


lemma py_sum_sum_list: "py_sum (xs :: 's::monoid_add list) = sum_list xs"
proof -
  have "foldl (+) a xs = a + sum_list xs" for a :: 's
    by (induction xs arbitrary: a) (simp_all add: add.assoc)
  then show ?thesis by (simp add: py_sum_def)
qed

lemma primary_column_ok:
  "\<forall>step \<in> set bd. i < length step \<Longrightarrow>
     primary_column i bd = Inr (map (\<lambda>step. fst (step ! i)) bd)"
  by (induction bd) simp_all

lemma predictor_fields_ok:
  fixes fmt_f :: "'s::monoid_add \<Rightarrow> string"
  assumes "\<forall>step \<in> set bd. \<forall>i \<in> set idxs. i < length step"
  shows "predictor_fields fmt_f names bd idxs =
     Inr (map (\<lambda>i. names ! i @ ''= '' @ fmt_f (\<Sum>step \<leftarrow> bd. fst (step ! i))) idxs)"
  using assms
  by (induction idxs) (simp_all add: primary_column_ok py_sum_sum_list)

lemma nbest_line_ok:
  fixes fmt_f :: "'s::monoid_add \<Rightarrow> string"
  assumes "\<forall>step \<in> set (score_breakdown hypo). length names \<le> length step"
  shows "nbest_line decode fmt_f names idx hypo =
           Inr (butlast (moses_line decode fmt_f names idx hypo))"
proof -
  have "\<forall>step \<in> set (score_breakdown hypo). \<forall>i \<in> set [0..<length names]. i < length step"
    using assms by auto
  then show ?thesis
    by (simp add: nbest_line_def predictor_fields_ok moses_line_def newline_def
          butlast_append)
qed

lemma moses_line_snoc:
  "butlast (moses_line decode fmt_f names idx hypo) @ newline =
     moses_line decode fmt_f names idx hypo"
  by (simp add: moses_line_def newline_def butlast_append)

lemma nbest_write_list_ok:
  fixes fmt_f :: "'s::monoid_add \<Rightarrow> string"
  assumes "\<forall>hypo \<in> set hypos. \<forall>step \<in> set (score_breakdown hypo). length names \<le> length step"
  shows "nbest_write_list decode fmt_f names idx hypos f =
           Inr (f @ concat (map (moses_line decode fmt_f names idx) hypos))"
  using assms
proof (induction hypos arbitrary: f)
  case Nil
  then show ?case by simp
next
  case (Cons hypo hypos)
  then show ?case
    by (simp add: nbest_line_ok) (simp add: moses_line_snoc flip: append_assoc)
qed

lemma nbest_write_loop_ok:
  fixes fmt_f :: "'s::monoid_add \<Rightarrow> string"
  assumes "breakdowns_cover (length names) (map snd pairs)"
  shows "nbest_write_loop decode fmt_f names pairs f =
           Inr (f @ concat (map (\<lambda>(idx, hypos).
                  concat (map (moses_line decode fmt_f names idx) hypos)) pairs))"
  using assms
proof (induction pairs arbitrary: f)
  case Nil
  then show ?case by simp
next
  case (Cons p pairs)
  obtain idx hypos where p: "p = (idx, hypos)" by (cases p)
  have here: "\<forall>hypo \<in> set hypos. \<forall>step \<in> set (score_breakdown hypo).
                 length names \<le> length step"
    using Cons.prems by (simp add: breakdowns_cover_def p)
  have rest: "breakdowns_cover (length names) (map snd pairs)"
    using Cons.prems by (simp add: breakdowns_cover_def)
  show ?case
    by (simp add: p nbest_write_list_ok[OF here] Cons.IH[OF rest])
qed

lemma breakdowns_cover_zip:
  "breakdowns_cover n all_hypos \<Longrightarrow> breakdowns_cover n (map snd (zip sen_indices all_hypos))"
  unfolding breakdowns_cover_def
  by (auto dest!: set_zip_rightD)

text \<open>
  C5. Provided every step carries an entry for each named predictor, the serializer
  writes, for every pair of a sentence index and an n-best list and for every hypothesis
  of that list in order, exactly one line
  \<open>index ||| decoded text ||| name= value ... ||| total score\<close>: the index is the
  one the caller passed (it is not shifted), and the value after the \<open>i\<close>-th name is
  the sum over all steps of the primary component of entry \<open>i\<close> (the code adds
  them from the left, starting from 0, which is that sum whenever addition is
  associative with unit 0). Lists are paired
  with indices by \<^verbatim>\<open>zip\<close>, so with one index per list every list is written.
\<close>

theorem nbest_write_hypos_moses:
  fixes fmt_f :: "'s::monoid_add \<Rightarrow> string"
  assumes "breakdowns_cover (length predictor_names) all_hypos"
  shows "NBestOutputHandler_write_hypos decode fmt_f predictor_names all_hypos sen_indices =
     Inr (concat (map (\<lambda>(idx, hypos).
            concat (map (moses_line decode fmt_f predictor_names idx) hypos))
          (zip sen_indices all_hypos)))"
  unfolding NBestOutputHandler_write_hypos_def
  using nbest_write_loop_ok[OF breakdowns_cover_zip[OF assms]] by simp


theorem nbest_write_hypos_moses_witness:
  "breakdowns_cover (length [''nmt'', ''lm''])
     [[\<lparr>trgt_sentence = [5, 9, 2], total_score = - 6 :: int,
        score_breakdown = [[(- 1, 1 :: int), (- 2, 1)], [(- 1, 1), (0, 1)], [(- 2, 1), (0, 1)]]\<rparr>]] \<and>
   NBestOutputHandler_write_hypos example_decode str_int
     [''nmt'', ''lm'']
     [[\<lparr>trgt_sentence = [5, 9, 2], total_score = - 6 :: int,
        score_breakdown = [[(- 1, 1 :: int), (- 2, 1)], [(- 1, 1), (0, 1)], [(- 2, 1), (0, 1)]]\<rparr>]]
     [7] =
   Inr (''7 ||| 5 9 2 ||| nmt= -4 lm= -2 ||| -6'' @ newline)"
proof -
  let ?h = "\<lparr>trgt_sentence = [5, 9, 2], total_score = - 6 :: int,
        score_breakdown = [[(- 1, 1 :: int), (- 2, 1)], [(- 1, 1), (0, 1)], [(- 2, 1), (0, 1)]]\<rparr>"
  let ?dec = example_decode
  have c: "breakdowns_cover (length [''nmt'', ''lm'']) [[?h]]"
    by (simp add: breakdowns_cover_def)
  have line: "moses_line ?dec str_int [''nmt'', ''lm''] 7 ?h =
      ''7 ||| 5 9 2 ||| nmt= -4 lm= -2 ||| -6'' @ newline"
    by code_simp
  show ?thesis
    using c nbest_write_hypos_moses[OF c, of ?dec str_int "[7]"] by (simp add: line)
qed


section \<open>The score file\<close>

lemma primary_column_hd:
  "\<forall>step \<in> set score. step \<noteq> [] \<Longrightarrow>
     primary_column 0 score = Inr (map (\<lambda>step. fst (hd step)) score)"
  by (induction score) (simp_all add: hd_conv_nth)

lemma score_write_open:
  assumes "\<not> file_closed fl" and "\<forall>step \<in> set score. step \<noteq> []"
  shows "score_write repr_f fl score =
           Inr (fl\<lparr>file_text := file_text fl @ score_line repr_f score\<rparr>)"
  using assms
  by (simp add: score_write_def primary_column_hd file_write_def str_list_def score_line_def
        comp_def)

text \<open>
  C6, as amended. \<^verbatim>\<open>write_hypos\<close> of the Score handler is a no-op: it leaves the
  handler, and with it the file, as it found them, whatever n-best lists it is given.
  The score line is written by the separate method \<^verbatim>\<open>write_score\<close>: on a handler
  whose file is open and a score breakdown whose steps each have at least one entry, it
  appends one line, the literal list of the primary components of each step's first
  entry.
\<close>

theorem score_handler_write_score:
  "ScoreOutputHandler_write_hypos h all_hypos sen_indices = h \<and>
   (score_f h = Some fl \<longrightarrow> \<not> file_closed fl \<longrightarrow> (\<forall>step \<in> set score. step \<noteq> []) \<longrightarrow>
      ScoreOutputHandler_write_score repr_f h score =
        Inr (h\<lparr>score_f := Some (fl\<lparr>file_text := file_text fl @ score_line repr_f score\<rparr>)\<rparr>))"
  by (simp add: ScoreOutputHandler_write_hypos_def ScoreOutputHandler_write_score_def
        score_write_open)

theorem score_handler_write_score_witness:
  "score_f ScoreOutputHandler_init = Some codecs_open_w \<and> \<not> file_closed codecs_open_w \<and>
   list_all (\<lambda>step. step \<noteq> []) [[(- 1 :: int, 1 :: int), (- 2, 1)], [(- 3, 1), (0, 1)]] \<and>
   ScoreOutputHandler_write_score str_int ScoreOutputHandler_init
       [[(- 1 :: int, 1 :: int), (- 2, 1)], [(- 3, 1), (0, 1)]] =
     Inr \<lparr>score_f = Some \<lparr>file_closed = False, file_text = ''[-1, -3]'' @ newline\<rparr>,
          score_path_text = []\<rparr>"
proof -
  let ?score = "[[(- 1 :: int, 1 :: int), (- 2, 1)], [(- 3, 1), (0, 1)]]"
  have f: "score_f ScoreOutputHandler_init = Some codecs_open_w"
    by (simp add: ScoreOutputHandler_init_def ScoreOutputHandler_open_file_def)
  have o: "\<not> file_closed codecs_open_w" by (simp add: codecs_open_w_def)
  have s: "\<forall>step \<in> set ?score. step \<noteq> []" by simp
  have l: "score_line str_int ?score = ''[-1, -3]'' @ newline" by code_simp
  from score_handler_write_score[of ScoreOutputHandler_init _ _ codecs_open_w ?score str_int] f o s
  have "ScoreOutputHandler_write_score str_int ScoreOutputHandler_init ?score =
        Inr (ScoreOutputHandler_init\<lparr>score_f := Some (codecs_open_w\<lparr>file_text :=
               file_text codecs_open_w @ score_line str_int ?score\<rparr>)\<rparr>)"
    by blast
  then show ?thesis using f o
    by (simp add: l ScoreOutputHandler_init_def ScoreOutputHandler_open_file_def codecs_open_w_def)
qed

theorem score_write_hypos_counterexample:
  "score_f (ScoreOutputHandler_write_hypos ScoreOutputHandler_init
      [[\<lparr>trgt_sentence = [5, 2], total_score = - 4 :: int,
         score_breakdown = [[(- 1, 1 :: int)], [(- 3, 1)]]\<rparr>]] (Some [0]))
     = Some \<lparr>file_closed = False, file_text = []\<rparr> \<and>
   [] \<noteq> score_line str_int [[(- 1 :: int, 1 :: int)], [(- 3, 1)]] \<and>
   score_line str_int [[(- 1 :: int, 1 :: int)], [(- 3, 1)]] = ''[-1, -3]'' @ newline"
proof -
  have l: "score_line str_int [[(- 1 :: int, 1 :: int)], [(- 3, 1)]] = ''[-1, -3]'' @ newline"
    by code_simp
  show ?thesis
    by (simp add: l ScoreOutputHandler_write_hypos_def ScoreOutputHandler_init_def
          ScoreOutputHandler_open_file_def codecs_open_w_def)
qed


section \<open>The per-rank files\<close>

lemma pad_hypos_nonempty:
  "hypos \<noteq> [] \<Longrightarrow>
     pad_hypos n hypos = Inr (hypos @ replicate (n - length hypos) (last hypos))"
proof (induction n hypos rule: pad_hypos.induct)
  case (1 n hypos)
  show ?case
  proof (cases "length hypos < n")
    case True
    then have r: "n - length hypos = Suc (n - length (hypos @ [last hypos]))" by simp
    have "pad_hypos n hypos = pad_hypos n (hypos @ [last hypos])"
      using True "1.prems" by (subst pad_hypos.simps) simp
    also have "\<dots> = Inr ((hypos @ [last hypos]) @
                 replicate (n - length (hypos @ [last hypos])) (last (hypos @ [last hypos])))"
      using True "1.prems" by (intro "1.IH") simp_all
    also have "\<dots> = Inr (hypos @ replicate (n - length hypos) (last hypos))"
      unfolding r by simp
    finally show ?thesis .
  next
    case False
    then show ?thesis by (subst pad_hypos.simps) simp
  qed
qed

lemma pad_hypos_empty: "0 < n \<Longrightarrow> pad_hypos n [] = Inl IndexError"
  by (subst pad_hypos.simps) simp

lemma sep_write_ranks_closed:
  assumes "distinct idxs" and "\<forall>i \<in> set idxs. i < length fs" and "files_open fs"
  shows "sep_write_ranks decode hypos idxs fs =
     Inr (map (\<lambda>j. if j \<in> set idxs
                    then (fs ! j)\<lparr>file_text := file_text (fs ! j) @
                                     decode (trgt_sentence (hypos ! j)) @ newline\<rparr>
                    else fs ! j) [0..<length fs])"
  using assms
proof (induction idxs arbitrary: fs)
  case Nil
  then show ?case by (simp add: map_nth)
next
  case (Cons i rest)
  let ?fl = "(fs ! i)\<lparr>file_text := file_text (fs ! i) @
                                     decode (trgt_sentence (hypos ! i)) @ newline\<rparr>"
  have i: "i < length fs" "i \<notin> set rest" using Cons.prems by simp_all
  have op: "\<not> file_closed (fs ! i)" using Cons.prems i by (simp add: files_open_def)
  have step: "sep_write_ranks decode hypos (i # rest) fs =
                sep_write_ranks decode hypos rest (fs[i := ?fl])"
    using op by (simp add: file_write_def)
  have open': "files_open (fs[i := ?fl])"
    using Cons.prems(3) op unfolding files_open_def
    by (auto dest!: set_update_subset_insert[THEN subsetD])
  have ih: "sep_write_ranks decode hypos rest (fs[i := ?fl]) =
     Inr (map (\<lambda>j. if j \<in> set rest
                    then (fs[i := ?fl] ! j)\<lparr>file_text := file_text (fs[i := ?fl] ! j) @
                                     decode (trgt_sentence (hypos ! j)) @ newline\<rparr>
                    else fs[i := ?fl] ! j) [0..<length (fs[i := ?fl])])"
    using Cons.prems open' by (intro Cons.IH) simp_all
  show ?case
    unfolding step ih using i
    by (auto intro!: nth_equalityI simp: nth_list_update)
qed

lemma files_open_map:
  "files_open fs \<Longrightarrow> files_open (map (\<lambda>j. (fs ! j)\<lparr>file_text := g j\<rparr>) [0..<length fs])"
  by (auto simp: files_open_def)

lemma sep_write_loop_closed:
  assumes "files_open fs" and "\<forall>hypos \<in> set all_hypos. hypos \<noteq> []"
  shows "sep_write_loop decode all_hypos fs acc =
     Inr (map (\<lambda>i. (fs ! i)\<lparr>file_text := file_text (fs ! i) @
                                concat (map (rank_line decode i) all_hypos)\<rparr>) [0..<length fs],
          acc @ map (\<lambda>hypos. hypos @ replicate (length fs - length hypos) (last hypos)) all_hypos)"
  using assms
proof (induction all_hypos arbitrary: fs acc)
  case Nil
  then show ?case by (simp add: map_nth)
next
  case (Cons hypos rest)
  let ?padded = "hypos @ replicate (length fs - length hypos) (last hypos)"
  let ?fs' = "map (\<lambda>j. (fs ! j)\<lparr>file_text := file_text (fs ! j) @ rank_line decode j hypos\<rparr>)
                  [0..<length fs]"
  have ne: "hypos \<noteq> []" using Cons.prems by simp
  have ranks: "sep_write_ranks decode ?padded [0..<length fs] fs = Inr ?fs'"
    using Cons.prems(1) ne
    by (subst sep_write_ranks_closed) (auto simp: rank_line_def nth_append)
  have step: "sep_write_loop decode (hypos # rest) fs acc =
                sep_write_loop decode rest ?fs' (acc @ [?padded])"
    by (simp add: pad_hypos_nonempty[OF ne] ranks)
  have open': "files_open ?fs'" using Cons.prems(1) by (rule files_open_map)
  have rest: "\<forall>hypos \<in> set rest. hypos \<noteq> []" using Cons.prems by simp
  show ?case
    unfolding step Cons.IH[OF open' rest]
    by simp
qed

text \<open>
  C7, as amended. Once the handler's files have been opened (one per requested rank, none
  of them closed), for every sequence of inputs in which each n-best list holds at least
  one hypothesis, \<^verbatim>\<open>write_hypos\<close> raises nothing and appends to every file \<open>i\<close>
  exactly one line per input, in input order: the text of the input's hypothesis of rank
  \<open>i\<close>, or of its last hypothesis when it has fewer than \<open>i + 1\<close>. The lists handed
  in come back padded with copies of their last element.
\<close>

theorem sep_write_hypos_aligned:
  assumes "sep_f h = Some fs" and "length fs = length (sep_paths h)" and "files_open fs"
    and "\<forall>hypos \<in> set all_hypos. hypos \<noteq> []"
  shows "NBestSeparateOutputHandler_write_hypos decode h all_hypos =
     Inr (h\<lparr>sep_f := Some (map (\<lambda>i. (fs ! i)\<lparr>file_text := file_text (fs ! i) @
                                concat (map (rank_line decode i) all_hypos)\<rparr>) [0..<length fs])\<rparr>,
          map (\<lambda>hypos. hypos @ replicate (length fs - length hypos) (last hypos)) all_hypos)"
proof (cases "fs = []")
  case True
  then have "sep_paths h = []" using assms(2) by simp
  then have "NBestSeparateOutputHandler_open_file h = h"
    using assms(1) True by (simp add: NBestSeparateOutputHandler_open_file_def)
  then show ?thesis
    using assms(1) True sep_write_loop_closed[OF assms(3,4), of decode "[]"]
    by (simp add: NBestSeparateOutputHandler_write_hypos_def)
next
  case False
  then show ?thesis
    using assms(1) sep_write_loop_closed[OF assms(3,4), of decode "[]"]
    by (simp add: NBestSeparateOutputHandler_write_hypos_def)
qed

theorem sep_write_hypos_aligned_witness:
  "sep_f (NBestSeparateOutputHandler_open_file (NBestSeparateOutputHandler_init ''out'' 3)) =
     Some [codecs_open_w, codecs_open_w, codecs_open_w] \<and>
   files_open [codecs_open_w, codecs_open_w, codecs_open_w] \<and>
   (case NBestSeparateOutputHandler_write_hypos example_decode
           (NBestSeparateOutputHandler_open_file (NBestSeparateOutputHandler_init ''out'' 3))
           [[\<lparr>trgt_sentence = [11], total_score = 0 :: int, score_breakdown = [] :: (int \<times> int) list list\<rparr>,
             \<lparr>trgt_sentence = [12], total_score = 0, score_breakdown = []\<rparr>,
             \<lparr>trgt_sentence = [13], total_score = 0, score_breakdown = []\<rparr>],
            [\<lparr>trgt_sentence = [21], total_score = 0, score_breakdown = []\<rparr>],
            [\<lparr>trgt_sentence = [31], total_score = 0, score_breakdown = []\<rparr>,
             \<lparr>trgt_sentence = [32], total_score = 0, score_breakdown = []\<rparr>]] of
      Inl e \<Rightarrow> None
    | Inr (h', all_hypos') \<Rightarrow> map_option (map file_text) (sep_f h')) =
   Some [''11'' @ newline @ ''21'' @ newline @ ''31'' @ newline,
         ''12'' @ newline @ ''21'' @ newline @ ''32'' @ newline,
         ''13'' @ newline @ ''21'' @ newline @ ''32'' @ newline]"
proof -
  let ?h = "NBestSeparateOutputHandler_open_file (NBestSeparateOutputHandler_init ''out'' 3)"
  let ?fs = "[codecs_open_w, codecs_open_w, codecs_open_w]"
  let ?dec = example_decode
  let ?A = "[[\<lparr>trgt_sentence = [11], total_score = 0 :: int, score_breakdown = [] :: (int \<times> int) list list\<rparr>,
             \<lparr>trgt_sentence = [12], total_score = 0, score_breakdown = []\<rparr>,
             \<lparr>trgt_sentence = [13], total_score = 0, score_breakdown = []\<rparr>],
            [\<lparr>trgt_sentence = [21], total_score = 0, score_breakdown = []\<rparr>],
            [\<lparr>trgt_sentence = [31], total_score = 0, score_breakdown = []\<rparr>,
             \<lparr>trgt_sentence = [32], total_score = 0, score_breakdown = []\<rparr>]]"
  have three: "[0..<3] = [0, 1, 2::nat]" by code_simp
  have f: "sep_f ?h = Some ?fs"
    by (simp add: three NBestSeparateOutputHandler_open_file_def NBestSeparateOutputHandler_init_def)
  have n: "length ?fs = length (sep_paths ?h)"
    by (simp add: three NBestSeparateOutputHandler_open_file_def NBestSeparateOutputHandler_init_def)
  have o: "files_open ?fs" by (simp add: files_open_def codecs_open_w_def)
  have a: "\<forall>hypos \<in> set ?A. hypos \<noteq> []" by simp
  have texts: "map file_text (map (\<lambda>i. (?fs ! i)\<lparr>file_text := file_text (?fs ! i) @
                                concat (map (rank_line ?dec i) ?A)\<rparr>) [0..<length ?fs]) =
        [''11'' @ newline @ ''21'' @ newline @ ''31'' @ newline,
         ''12'' @ newline @ ''21'' @ newline @ ''32'' @ newline,
         ''13'' @ newline @ ''21'' @ newline @ ''32'' @ newline]"
    by code_simp
  note eq = sep_write_hypos_aligned[OF f n o a, of ?dec]
  have "(case NBestSeparateOutputHandler_write_hypos ?dec ?h ?A of
      Inl e \<Rightarrow> None
    | Inr (h', all_hypos') \<Rightarrow> map_option (map file_text) (sep_f h')) =
     Some (map file_text (map (\<lambda>i. (?fs ! i)\<lparr>file_text := file_text (?fs ! i) @
                                concat (map (rank_line ?dec i) ?A)\<rparr>) [0..<length ?fs]))"
    unfolding eq by simp
  then show ?thesis
    unfolding texts using f o by simp
qed

theorem sep_write_hypos_counterexample:
  "NBestSeparateOutputHandler_write_hypos example_decode
     (NBestSeparateOutputHandler_open_file (NBestSeparateOutputHandler_init ''out'' 1))
     [[] :: (int, int) hypothesis list] = Inl IndexError \<and>
   NBestSeparateOutputHandler_write_hypos example_decode
     (NBestSeparateOutputHandler_init ''out'' 1)
     [[\<lparr>trgt_sentence = [11], total_score = 0 :: int,
        score_breakdown = [] :: (int \<times> int) list list\<rparr>]] = Inl AttributeError"
proof -
  have one: "[0..<1] = [0::nat]" by simp
  show ?thesis
    by (simp add: one NBestSeparateOutputHandler_write_hypos_def
          NBestSeparateOutputHandler_open_file_def NBestSeparateOutputHandler_init_def
          pad_hypos_empty)
qed


section \<open>The n-gram posteriors\<close>





lemma distinct_first_occurrences [simp]: "distinct (first_occurrences xs)"
  by (simp add: first_occurrences_def)

lemma first_occurrences_Nil [simp]: "first_occurrences [] = []"
  by (simp add: first_occurrences_def)








lemma filter_upt_snoc:
  "[i \<leftarrow> [0..<Suc j]. P ((xs @ [x]) ! i)] =
     [i \<leftarrow> [0..<j]. P ((xs @ [x]) ! i)] @ (if P ((xs @ [x]) ! j) then [j] else [])"
  by simp






















section \<open>Forced decoding\<close>

text \<open>
  C1. In the module as written the name \<open>k\<close> is unbound, and no forced-decoding step
  completes: a step whose required symbol exists raises NameError at the lookup, after
  the ensemble has been restored and queried and before the hypothesis is touched, so no
  score is added, nothing is appended to the breakdown and the prefix does not grow. (A
  step past the end of the target raises IndexError one line earlier.)
\<close>

theorem expand_hypo_raises:
  "expand_hypo ops None trgt hypo st =
     Inl (if length trgt \<le> length (trgt_sentence_p hypo) then IndexError else NameError)"
  by (simp add: expand_hypo_def Let_def split: prod.splits)

text \<open>
  C2. On the example ensemble, whose candidates are 2, 5 and 9: the step that requires
  symbol 5, which is among the candidates, fails with NameError, and so does the step
  that requires symbol 7, which is not. The failure does not depend on whether the
  required symbol was scored.
\<close>

theorem expand_hypo_lookup_name_error:
  "expand_hypo example_ops None [5, 2] (PartialHypothesis []) [] = Inl NameError \<and>
   5 \<in> set (fst (fst (apply_predictors example_ops []))) \<and>
   expand_hypo example_ops None [7, 2] (PartialHypothesis []) [] = Inl NameError \<and>
   7 \<notin> set (fst (fst (apply_predictors example_ops [])))"
  by (simp add: expand_hypo_def Let_def PartialHypothesis_def example_ops_def)

text \<open>
  C3. On the example ensemble the step for the target \<open>[5, 2]\<close> raises NameError and
  stores no snapshot. Were the global name \<open>k\<close> bound to the required symbol 5, the
  step would complete, and the snapshot it stores on the hypothesis would be the state
  \<open>[]\<close> the ensemble had before \<^verbatim>\<open>consume(5)\<close>, while the live ensemble has moved
  on to \<open>[5]\<close>: the assignment to \<^verbatim>\<open>hypo.predictor_states\<close> stands before the call
  of \<^verbatim>\<open>consume\<close>.
\<close>

theorem expand_hypo_snapshot:
  "expand_hypo example_ops None [5, 2] (PartialHypothesis []) [] = Inl NameError \<and>
   expand_hypo example_ops (Some 5) [5, 2] (PartialHypothesis []) [] =
     Inr (\<lparr>predictor_states = [], trgt_sentence_p = [5], score_p = - 1,
           score_breakdown_p = [- 1]\<rparr>, [5])"
  by (simp add: expand_hypo_def Let_def PartialHypothesis_def example_ops_def
        example_search_def py_index_def)

text \<open>
  C4. In the module as written, forced decoding of any target over any ensemble ends
  with NameError in its first step: the root hypothesis has no last word, the target
  extended by end-of-sequence is not empty, and the step raises. No breakdown and no
  score are produced.
\<close>

theorem decode_raises_name_error:
  fixes ops :: "('st, 'snap, 'sc::{zero,plus}, 'bd) decoder_ops"
  shows "ReferenceDecoder_decode ops None src_sentence trgt_sentence0 st = Inl NameError"
proof -
  let ?st1 = "initialize_predictors ops src_sentence st"
  let ?hypo = "PartialHypothesis (get_predictor_states ops ?st1) :: ('snap, 'sc) partial_hypothesis"
  have "get_last_word ?hypo = None"
    by (simp add: get_last_word_def PartialHypothesis_def)
  moreover have "expand_hypo ops None (trgt_sentence0 @ [utils_EOS_ID ops]) ?hypo ?st1 = Inl NameError"
    by (simp add: expand_hypo_def Let_def PartialHypothesis_def split: prod.splits)
  ultimately have "decode_loop ops None (trgt_sentence0 @ [utils_EOS_ID ops]) ?hypo ?st1 = Inl NameError"
    by (subst decode_loop.simps) simp
  then show ?thesis by (simp add: ReferenceDecoder_decode_def Let_def)
qed

end
